theory Spec2Isabelle
  imports Main "HOL-Library.Word"
begin

unbundle bit_operations_syntax

section \<open>SSNTP roles and role object identifiers\<close>

text \<open>
  A role is a \<open>uint32\<close> bitmask; an ASN.1 object identifier is a slice of integers, and
  \<open>ObjectIdentifier.Equal\<close> compares two of them component by component, which is
  equality of lists.
\<close>

type_synonym role = "32 word"
type_synonym oid = "int list"

definition UNKNOWN :: role where "UNKNOWN = 0x0"
definition SERVER :: role where "SERVER = 0x1"
definition Controller :: role where "Controller = 0x2"
definition AGENT :: role where "AGENT = 0x4"
definition SCHEDULER :: role where "SCHEDULER = 0x8"
definition NETAGENT :: role where "NETAGENT = 0x10"
definition CNCIAGENT :: role where "CNCIAGENT = 0x20"

definition RoleAgentOID :: oid where "RoleAgentOID = [1, 3, 6, 1, 4, 1, 343, 8, 1]"
definition RoleSchedulerOID :: oid where "RoleSchedulerOID = [1, 3, 6, 1, 4, 1, 343, 8, 2]"
definition RoleControllerOID :: oid where "RoleControllerOID = [1, 3, 6, 1, 4, 1, 343, 8, 3]"
definition RoleNetAgentOID :: oid where "RoleNetAgentOID = [1, 3, 6, 1, 4, 1, 343, 8, 4]"
definition RoleServerOID :: oid where "RoleServerOID = [1, 3, 6, 1, 4, 1, 343, 8, 5]"
definition RoleCNCIAgentOID :: oid where "RoleCNCIAgentOID = [1, 3, 6, 1, 4, 1, 343, 8, 6]"

text \<open>The table \<open>roleOID\<close>, in the order of the source; a pair is (role, oid).\<close>

definition roleOID :: "(role \<times> oid) list" where
  "roleOID =
     [(AGENT, RoleAgentOID),
      (SCHEDULER, RoleSchedulerOID),
      (Controller, RoleControllerOID),
      (NETAGENT, RoleNetAgentOID),
      (SERVER, RoleServerOID),
      (CNCIAGENT, RoleCNCIAgentOID)]"

datatype error =
    UnknownRoleError role
  | OidError
  | NoRoleError
  | X509Error string
  | UUIDError
  | Errno nat

text \<open>
  \<open>getRoleFromOIDs\<close>: the outer loop runs over the given identifiers, the inner one over
  the table, and every table entry with an equal identifier adds its bit.
\<close>

definition scanRoleOID :: "oid \<Rightarrow> role \<Rightarrow> (role \<times> oid) list \<Rightarrow> role" where
  "scanRoleOID oid role tbl =
     foldl (\<lambda>role r. if snd r = oid then role OR fst r else role) role tbl"

definition getRoleFromOIDs :: "oid list \<Rightarrow> role" where
  "getRoleFromOIDs oids = foldl (\<lambda>role oid. scanRoleOID oid role roleOID) UNKNOWN oids"

text \<open>
  \<open>getOIDsFromRole\<close> returns the pair (slice, error) of the source: the nil slice and an
  error when no table entry is covered by the role, the collected slice and no error
  otherwise.
\<close>

definition collectOIDs :: "role \<Rightarrow> (role \<times> oid) list \<Rightarrow> oid list" where
  "collectOIDs role tbl =
     foldl (\<lambda>oids r. if role AND fst r = fst r then oids @ [snd r] else oids) [] tbl"

definition getOIDsFromRole :: "role \<Rightarrow> oid list \<times> error option" where
  "getOIDsFromRole role =
     (let oids = collectOIDs role roleOID
      in if length oids = 0 then ([], Some (UnknownRoleError role)) else (oids, None))"

text \<open>
  The bitwise union of the role bits whose identifier occurs in a list, written as a
  specification to compare \<open>getRoleFromOIDs\<close> with.
\<close>

definition roleUnion :: "oid list \<Rightarrow> role" where
  "roleUnion oids = foldr (OR) (map fst (filter (\<lambda>r. snd r \<in> set oids) roleOID)) 0"

definition definedRoles :: "role set" where
  "definedRoles = {SERVER, Controller, AGENT, SCHEDULER, NETAGENT, CNCIAGENT}"

subsection \<open>Certificates and connections\<close>

text \<open>
  Of an X.509 certificate only the field \<open>UnknownExtKeyUsage\<close> is read. A connection is
  an \<open>interface{}\<close>: either a \<open>*tls.Conn\<close>, of which \<open>verifyRole\<close> reads the peer
  certificates of the connection state, or anything else. A call returns, panics (an
  index out of range, a nil dereference) or ends the process (\<open>log.Fatalf\<close>).
\<close>

record certificate =
  UnknownExtKeyUsage :: "oid list"

datatype conn = TLSConn (PeerCertificates: "certificate list") | OtherConn

datatype 'a outcome = Return 'a | Panic | Fatal

definition verifyRole :: "conn \<Rightarrow> role \<Rightarrow> (bool \<times> error option) outcome" where
  "verifyRole c role =
     (case c of
        TLSConn certs \<Rightarrow>
          (case certs of
             [] \<Rightarrow> Panic
           | cert # _ \<Rightarrow>
               (let certRole = getRoleFromOIDs (UnknownExtKeyUsage cert)
                in if certRole AND role \<noteq> role then Return (False, Some OidError)
                   else Return (True, None)))
      | OtherConn \<Rightarrow> Return (False, Some OidError))"

text \<open>
  \<open>parseCertificate\<close> reads the certificate file, decodes its first PEM block and parses
  the block as X.509 certificates. The three library calls are parameters: reading a
  file, \<open>pem.Decode\<close> (the bytes of the first block, or no block) and
  \<open>x509.ParseCertificates\<close>. A failed read ends the process; a missing PEM block is
  printed and then dereferenced; the first parsed certificate is indexed unchecked.
\<close>

record config =
  Cert :: string
  CAcert :: string

record host =
  ReadFile :: "string \<Rightarrow> error + string"
  pemDecode :: "string \<Rightarrow> string option"
  ParseCertificates :: "string \<Rightarrow> error + certificate list"

definition parseCertificate :: "host \<Rightarrow> config \<Rightarrow> (role \<times> error option) outcome" where
  "parseCertificate h cfg =
     (case ReadFile h (Cert cfg) of
        Inl _ \<Rightarrow> Fatal
      | Inr certPEM \<Rightarrow>
          (case pemDecode h certPEM of
             None \<Rightarrow> Panic
           | Some bytes \<Rightarrow>
               (case ParseCertificates h bytes of
                  Inl err \<Rightarrow> Return (0, Some err)
                | Inr [] \<Rightarrow> Panic
                | Inr (cert # _) \<Rightarrow>
                    (let role = getRoleFromOIDs (UnknownExtKeyUsage cert)
                     in if role = UNKNOWN then Return (role, Some NoRoleError)
                        else Return (role, None)))))"

section \<open>The identity store\<close>

subsection \<open>The host: files, descriptors and advisory locks\<close>

text \<open>
  \<open>newUUID\<close> and \<open>freeUUID\<close> work through system calls. The state they act on holds
  the directories and the contents of the files, the descriptor table of the calling
  process, the advisory lock on each file (held through one of the descriptors of this
  process, or by another process), the limit on open descriptors, and a counter for the
  values \<open>uuid.Generate\<close> hands out. Failures that come from outside (permissions, a
  full disk, an I/O error) are the field \<open>fault\<close>: the error number a call fails with,
  if it does.
\<close>

record ofile =
  opath :: string
  offset :: nat
  writable :: bool

datatype owner = Self int | Other

datatype syscall =
    MkdirAllCall string
  | OpenCall string
  | FlockCall string
  | ReadCall string
  | WriteCall string

datatype flock_op = LOCK_EX_NB | LOCK_UN

record os =
  dirs :: "string set"
  files :: "string \<rightharpoonup> string"
  fdtab :: "int \<rightharpoonup> ofile"
  flocks :: "string \<rightharpoonup> owner"
  nofile :: nat
  fault :: "syscall \<Rightarrow> nat option"
  rng :: nat

definition ENOENT :: nat where "ENOENT = 2"
definition EBADF :: nat where "EBADF = 9"
definition EWOULDBLOCK :: nat where "EWOULDBLOCK = 11"
definition EMFILE :: nat where "EMFILE = 24"

text \<open>
  Paths are compared as texts. The directory of a path is what precedes its last slash;
  \<open>os.MkdirAll\<close> makes the directory and every parent of it.
\<close>

definition dirname :: "string \<Rightarrow> string" where
  "dirname p = rev (drop 1 (dropWhile (\<lambda>c. c \<noteq> CHR ''/'') (rev p)))"

definition parents :: "string \<Rightarrow> string list" where
  "parents p = map (\<lambda>i. take i p) (filter (\<lambda>i. p ! i = CHR ''/'') [0..<length p])"

definition MkdirAll :: "string \<Rightarrow> os \<Rightarrow> error option \<times> os" where
  "MkdirAll p s =
     (case fault s (MkdirAllCall p) of
        Some e \<Rightarrow> (Some (Errno e), s)
      | None \<Rightarrow> (None, s\<lparr>dirs := dirs s \<union> set (p # parents p)\<rparr>))"

text \<open>A new descriptor is the lowest number that is not open, below the limit.\<close>

definition allocFd :: "os \<Rightarrow> nat option" where
  "allocFd s = find (\<lambda>n. fdtab s (int n) = None) [0..<nofile s]"

text \<open>
  \<open>syscall.Open\<close>, with the flag \<open>O_CREAT\<close> and the access mode (\<open>O_RDWR\<close> or the
  default \<open>O_RDONLY\<close>) as booleans. A file that does not exist is created, empty, when
  \<open>O_CREAT\<close> is given and its directory exists; otherwise the call fails with
  \<open>ENOENT\<close>.
\<close>

definition sysOpen :: "string \<Rightarrow> bool \<Rightarrow> bool \<Rightarrow> os \<Rightarrow> (error + int) \<times> os" where
  "sysOpen p creat rdwr s =
     (case fault s (OpenCall p) of
        Some e \<Rightarrow> (Inl (Errno e), s)
      | None \<Rightarrow>
          if files s p = None \<and> (\<not> creat \<or> dirname p \<notin> dirs s) then (Inl (Errno ENOENT), s)
          else
            (case allocFd s of
               None \<Rightarrow> (Inl (Errno EMFILE), s)
             | Some n \<Rightarrow>
                 (Inr (int n),
                  s\<lparr>files := (if files s p = None then (files s)(p \<mapsto> []) else files s),
                    fdtab := (fdtab s)(int n \<mapsto> \<lparr>opath = p, offset = 0, writable = rdwr\<rparr>)\<rparr>)))"

text \<open>
  Closing a descriptor drops the lock held through it. \<open>flock\<close> with
  \<open>LOCK_EX|LOCK_NB\<close> fails at once when the lock is held through another descriptor or by
  another process.
\<close>

definition dropLock :: "int \<Rightarrow> string \<Rightarrow> os \<Rightarrow> string \<rightharpoonup> owner" where
  "dropLock fd p s = (if flocks s p = Some (Self fd) then (flocks s)(p := None) else flocks s)"

definition sysClose :: "int \<Rightarrow> os \<Rightarrow> error option \<times> os" where
  "sysClose fd s =
     (case fdtab s fd of
        None \<Rightarrow> (Some (Errno EBADF), s)
      | Some f \<Rightarrow> (None, s\<lparr>fdtab := (fdtab s)(fd := None), flocks := dropLock fd (opath f) s\<rparr>))"

definition sysFlock :: "int \<Rightarrow> flock_op \<Rightarrow> os \<Rightarrow> error option \<times> os" where
  "sysFlock fd how s =
     (case fdtab s fd of
        None \<Rightarrow> (Some (Errno EBADF), s)
      | Some f \<Rightarrow>
          (case fault s (FlockCall (opath f)) of
             Some e \<Rightarrow> (Some (Errno e), s)
           | None \<Rightarrow>
               (case how of
                  LOCK_UN \<Rightarrow> (None, s\<lparr>flocks := dropLock fd (opath f) s\<rparr>)
                | LOCK_EX_NB \<Rightarrow>
                    (case flocks s (opath f) of
                       None \<Rightarrow> (None, s\<lparr>flocks := (flocks s)(opath f \<mapsto> Self fd)\<rparr>)
                     | Some holder \<Rightarrow>
                         if holder = Self fd then (None, s)
                         else (Some (Errno EWOULDBLOCK), s)))))"

text \<open>
  Reading returns at most \<open>count\<close> bytes from the offset of the descriptor and advances
  it; writing stores the bytes at the offset and advances it.
\<close>

definition fileContent :: "os \<Rightarrow> string \<Rightarrow> string" where
  "fileContent s p = (case files s p of None \<Rightarrow> [] | Some c \<Rightarrow> c)"

definition sysRead :: "int \<Rightarrow> nat \<Rightarrow> os \<Rightarrow> (error + string) \<times> os" where
  "sysRead fd count s =
     (case fdtab s fd of
        None \<Rightarrow> (Inl (Errno EBADF), s)
      | Some f \<Rightarrow>
          (case fault s (ReadCall (opath f)) of
             Some e \<Rightarrow> (Inl (Errno e), s)
           | None \<Rightarrow>
               (let buf = take count (drop (offset f) (fileContent s (opath f)))
                in (Inr buf, s\<lparr>fdtab := (fdtab s)(fd \<mapsto> f\<lparr>offset := offset f + length buf\<rparr>)\<rparr>))))"

definition writeAt :: "nat \<Rightarrow> string \<Rightarrow> string \<Rightarrow> string" where
  "writeAt pos bytes c =
     take pos c @ replicate (pos - length c) (CHR 0x00) @ bytes @ drop (pos + length bytes) c"

definition sysWrite :: "int \<Rightarrow> string \<Rightarrow> os \<Rightarrow> (error + nat) \<times> os" where
  "sysWrite fd bytes s =
     (case fdtab s fd of
        None \<Rightarrow> (Inl (Errno EBADF), s)
      | Some f \<Rightarrow>
          if \<not> writable f then (Inl (Errno EBADF), s)
          else
            (case fault s (WriteCall (opath f)) of
               Some e \<Rightarrow> (Inl (Errno e), s)
             | None \<Rightarrow>
                 (Inr (length bytes),
                  s\<lparr>files := (files s)(opath f \<mapsto> writeAt (offset f) bytes (fileContent s (opath f))),
                    fdtab := (fdtab s)(fd \<mapsto> f\<lparr>offset := offset f + length bytes\<rparr>)\<rparr>)))"

subsection \<open>The UUID library\<close>

text \<open>
  The package \<open>uuid\<close> is a library outside the repository, so its three functions are
  parameters. \<open>Parse\<close> returns a value and an error, as in Go; \<open>Generate\<close> is a sequence
  of values, read at the counter \<open>rng\<close> of the state.
\<close>

type_synonym uuid = "8 word list"

record uuidlib =
  Parse :: "string \<Rightarrow> uuid \<times> error option"
  String :: "uuid \<Rightarrow> string"
  Generate :: "nat \<Rightarrow> uuid"

definition uuidGenerate :: "uuidlib \<Rightarrow> os \<Rightarrow> uuid \<times> os" where
  "uuidGenerate lib s = (Generate lib (rng s), s\<lparr>rng := Suc (rng s)\<rparr>)"

subsection \<open>Paths\<close>

definition uuidPrefix :: string where
  "uuidPrefix = ''/var/lib/ciao/local/uuid-storage/role''"

definition uuidLockPrefix :: string where
  "uuidLockPrefix = ''/tmp/lock/ciao''"

definition nullUUID :: string where
  "nullUUID = ''00000000-0000-0000-0000-000000000000''"

definition hexDigit :: "nat \<Rightarrow> char" where
  "hexDigit d = ''0123456789abcdef'' ! d"

fun hexString :: "nat \<Rightarrow> string" where
  "hexString n = (if n < 16 then [hexDigit n] else hexString (n div 16) @ [hexDigit (n mod 16)])"

declare hexString.simps [simp del]

definition uuidFile :: "string \<Rightarrow> role \<Rightarrow> string" where
  "uuidFile prefix role = uuidPrefix @ ''/'' @ prefix @ ''/0x'' @ hexString (unat role)"

definition uuidLockFile :: "string \<Rightarrow> role \<Rightarrow> string" where
  "uuidLockFile prefix role =
     uuidLockPrefix @ ''/'' @ prefix @ ''-role-0x'' @ hexString (unat role)"

subsection \<open>Acquiring and releasing\<close>

record lockedUUID =
  lockFd :: int
  uuid :: uuid

text \<open>
  The part of \<open>newUUID\<close> that runs once the lock is taken: read up to 36 bytes of the UUID
  file, then either write a generated UUID or parse what was read.
\<close>

definition newUUID_locked ::
  "uuidlib \<Rightarrow> int \<Rightarrow> int \<Rightarrow> lockedUUID \<Rightarrow> os \<Rightarrow> (lockedUUID \<times> error option) \<times> os" where
  "newUUID_locked lib fd lfd nUUID s =
     (case sysRead fd 36 s of
        (Inl err, s1) \<Rightarrow> ((nUUID, Some err), snd (sysClose lfd s1))
      | (Inr uuidArray, s1) \<Rightarrow>
          (let n = length uuidArray
           in if n = 0 \<or> n \<noteq> 36 then
                (let (newU, s2) = uuidGenerate lib s1
                 in case sysWrite fd (String lib newU) s2 of
                      (Inl err, s3) \<Rightarrow> ((nUUID, Some err), snd (sysClose lfd s3))
                    | (Inr _, s3) \<Rightarrow> ((\<lparr>lockFd = lfd, uuid = newU\<rparr>, None), s3))
              else if n = 36 then
                (case Parse lib (take 36 uuidArray) of
                   (_, Some err) \<Rightarrow> ((nUUID, Some err), snd (sysClose lfd s1))
                 | (newU, None) \<Rightarrow> ((\<lparr>lockFd = lfd, uuid = newU\<rparr>, None), s1))
              else ((nUUID, None), s1)))"

text \<open>The deferred close of the UUID file runs on every return after it was opened.\<close>

definition deferClose ::
  "int \<Rightarrow> (lockedUUID \<times> error option) \<times> os \<Rightarrow> (lockedUUID \<times> error option) \<times> os" where
  "deferClose fd r = (fst r, snd (sysClose fd (snd r)))"

text \<open>
  The part of \<open>newUUID\<close> between the deferred close and the lock: open the lock file and
  try the lock without blocking; any failure of \<open>flock\<close> counts as "already locked".
\<close>

definition newUUID_opened ::
  "uuidlib \<Rightarrow> string \<Rightarrow> int \<Rightarrow> lockedUUID \<Rightarrow> lockedUUID \<Rightarrow> os \<Rightarrow>
     (lockedUUID \<times> error option) \<times> os" where
  "newUUID_opened lib lockFile fd nUUID randomUUID s =
     (case sysOpen lockFile True False s of
        (Inl err, s1) \<Rightarrow> ((nUUID, Some err), s1)
      | (Inr lfd, s1) \<Rightarrow>
          (case sysFlock lfd LOCK_EX_NB s1 of
             (Some _, s2) \<Rightarrow> ((randomUUID, None), snd (sysClose lfd s2))
           | (None, s2) \<Rightarrow> newUUID_locked lib fd lfd nUUID s2))"

definition newUUID ::
  "uuidlib \<Rightarrow> string \<Rightarrow> role \<Rightarrow> os \<Rightarrow> (lockedUUID \<times> error option) \<times> os" where
  "newUUID lib prefix role s0 =
     (let nUUID = \<lparr>lockFd = -1, uuid = fst (Parse lib nullUUID)\<rparr>;
          (g, s1) = uuidGenerate lib s0;
          randomUUID = \<lparr>lockFd = -1, uuid = g\<rparr>;
          (_, s2) = MkdirAll (uuidPrefix @ ''/'' @ prefix) s1
      in case MkdirAll uuidLockPrefix s2 of
           (Some err, s3) \<Rightarrow> ((nUUID, Some err), s3)
         | (None, s3) \<Rightarrow>
             (case sysOpen (uuidFile prefix role) True True s3 of
                (Inl err, s4) \<Rightarrow> ((nUUID, Some err), s4)
              | (Inr fd, s4) \<Rightarrow>
                  deferClose fd
                    (newUUID_opened lib (uuidLockFile prefix role) fd nUUID randomUUID s4)))"

definition freeUUID :: "lockedUUID \<Rightarrow> os \<Rightarrow> error option \<times> os" where
  "freeUUID u s =
     (if lockFd u = -1 then (None, s)
      else
        (case sysFlock (lockFd u) LOCK_UN s of
           (Some err, s1) \<Rightarrow> (Some err, s1)
         | (None, s1) \<Rightarrow> (None, s1)))"

subsection \<open>The stages of \<open>newUUID\<close>\<close>

text \<open>
  Names for what \<open>newUUID\<close> builds before it opens a file: the state once the UUID is
  generated and the two directories are made, the null value returned with every error
  and the random value returned when the lock is taken. \<open>reachesLock\<close> collects what
  makes the calls before \<open>flock\<close> succeed: no slash in the prefix (the directory of the
  lock file is then the lock directory), no outside failure of the two \<open>MkdirAll\<close> and
  the two \<open>Open\<close>, and two free descriptors \<open>a\<close> and \<open>b\<close> below the limit.
\<close>

definition prepared :: "uuidlib \<Rightarrow> string \<Rightarrow> os \<Rightarrow> os" where
  "prepared lib prefix s =
     snd (MkdirAll uuidLockPrefix
       (snd (MkdirAll (uuidPrefix @ ''/'' @ prefix) (snd (uuidGenerate lib s)))))"

definition nullLocked :: "uuidlib \<Rightarrow> lockedUUID" where
  "nullLocked lib = \<lparr>lockFd = -1, uuid = fst (Parse lib nullUUID)\<rparr>"

definition randomLocked :: "uuidlib \<Rightarrow> os \<Rightarrow> lockedUUID" where
  "randomLocked lib s = \<lparr>lockFd = -1, uuid = Generate lib (rng s)\<rparr>"

definition reachesLock :: "string \<Rightarrow> role \<Rightarrow> nat \<Rightarrow> nat \<Rightarrow> os \<Rightarrow> bool" where
  "reachesLock prefix role a b s \<longleftrightarrow>
     CHR ''/'' \<notin> set prefix \<and>
     fault s (MkdirAllCall (uuidPrefix @ ''/'' @ prefix)) = None \<and>
     fault s (MkdirAllCall uuidLockPrefix) = None \<and>
     fault s (OpenCall (uuidFile prefix role)) = None \<and>
     fault s (OpenCall (uuidLockFile prefix role)) = None \<and>
     a \<noteq> b \<and> a < nofile s \<and> b < nofile s \<and>
     fdtab s (int a) = None \<and> fdtab s (int b) = None"

subsection \<open>Example hosts\<close>

text \<open>
  Certificate files without a PEM block and with an empty one, a UUID library that knows
  one text, and a host with no open descriptor, given by its files, its locks and its
  outside failures.
\<close>

definition exampleConfig :: config where
  "exampleConfig = \<lparr>Cert = ''cert.pem'', CAcert = ''ca.pem''\<rparr>"

definition noPemHost :: host where
  "noPemHost =
     \<lparr>ReadFile = (\<lambda>p. Inr ''not a certificate''), pemDecode = (\<lambda>b. None),
      ParseCertificates = (\<lambda>b. Inr [])\<rparr>"

definition emptyPemHost :: host where
  "emptyPemHost =
     \<lparr>ReadFile = (\<lambda>p. Inr ''an empty block''), pemDecode = (\<lambda>b. Some []),
      ParseCertificates = (\<lambda>b. Inr [])\<rparr>"

definition exampleText :: string where
  "exampleText = ''6ba7b810-9dad-11d1-80b4-00c04fd430c8''"

definition exampleUUID :: uuid where
  "exampleUUID =
     [0x6b, 0xa7, 0xb8, 0x10, 0x9d, 0xad, 0x11, 0xd1, 0x80, 0xb4, 0x00, 0xc0, 0x4f, 0xd4, 0x30, 0xc8]"

definition exampleLib :: uuidlib where
  "exampleLib =
     \<lparr>Parse = (\<lambda>t. if t = exampleText then (exampleUUID, None) else (replicate 16 0, Some UUIDError)),
      String = (\<lambda>u. if u = exampleUUID then exampleText else nullUUID),
      Generate = (\<lambda>n. [0, 0, 0, 0, 0, 0, 0, 0, 0, 0, 0, 0, 0, 0, 0, of_nat n])\<rparr>"

definition exampleOS ::
  "(string \<rightharpoonup> string) \<Rightarrow> (string \<rightharpoonup> owner) \<Rightarrow> (syscall \<Rightarrow> nat option) \<Rightarrow> os" where
  "exampleOS fs ls flt =
     \<lparr>dirs = {}, files = fs, fdtab = Map.empty, flocks = ls, nofile = 1024, fault = flt, rng = 0\<rparr>"

subsection \<open>Holding the lock\<close>


definition heldOS :: os where
  "heldOS =
     \<lparr>dirs = {}, files = Map.empty,
      fdtab = [3 \<mapsto> \<lparr>opath = ''/tmp/lock/ciao/scheduler-role-0x8'', offset = 0, writable = False\<rparr>],
      flocks = [''/tmp/lock/ciao/scheduler-role-0x8'' \<mapsto> Self 3],
      nofile = 1024, fault = (\<lambda>c. None), rng = 0\<rparr>"

section \<open>Properties of the role tables\<close>

lemma bit_scan_fold:
  "bit (foldl (\<lambda>role r. if snd r = oid then role OR fst r else role) acc tbl) n \<longleftrightarrow>
     bit acc n \<or> (\<exists>r\<in>set tbl. snd r = oid \<and> bit (fst r) n)"
  for acc :: role
  by (induction tbl arbitrary: acc) (auto simp: bit_or_iff)

lemma bit_scanRoleOID:
  "bit (scanRoleOID oid acc tbl) n \<longleftrightarrow>
     bit acc n \<or> (\<exists>r\<in>set tbl. snd r = oid \<and> bit (fst r) n)"
  unfolding scanRoleOID_def by (rule bit_scan_fold)

lemma bit_outer_fold:
  "bit (foldl (\<lambda>role oid. scanRoleOID oid role tbl) acc oids) n \<longleftrightarrow>
     bit acc n \<or> (\<exists>r\<in>set tbl. snd r \<in> set oids \<and> bit (fst r) n)"
  by (induction oids arbitrary: acc) (auto simp: bit_scanRoleOID)

lemma bit_getRoleFromOIDs:
  "bit (getRoleFromOIDs oids) n \<longleftrightarrow> (\<exists>r\<in>set roleOID. snd r \<in> set oids \<and> bit (fst r) n)"
  unfolding getRoleFromOIDs_def by (simp add: bit_outer_fold UNKNOWN_def)

lemma bit_foldr_or: "bit (foldr (OR) xs (0::role)) n \<longleftrightarrow> (\<exists>x\<in>set xs. bit x n)"
  by (induction xs) (auto simp: bit_or_iff)

lemma getRoleFromOIDs_roleUnion: "getRoleFromOIDs oids = roleUnion oids"
  by (rule bit_eqI) (force simp: bit_getRoleFromOIDs roleUnion_def bit_foldr_or)

lemma collect_fold:
  "foldl (\<lambda>oids r. if role AND fst r = fst r then oids @ [snd r] else oids) acc tbl
    = acc @ map snd (filter (\<lambda>r. role AND fst r = fst r) tbl)"
  by (induction tbl arbitrary: acc) auto

lemma collectOIDs_filter:
  "collectOIDs role tbl = map snd (filter (\<lambda>r. role AND fst r = fst r) tbl)"
  unfolding collectOIDs_def by (simp add: collect_fold)

lemma fst_getOIDsFromRole: "fst (getOIDsFromRole role) = collectOIDs role roleOID"
  by (simp add: getOIDsFromRole_def Let_def)

lemma snd_getOIDsFromRole:
  "snd (getOIDsFromRole role) = None \<longleftrightarrow> collectOIDs role roleOID \<noteq> []"
  by (simp add: getOIDsFromRole_def Let_def)

lemma and_exp_eq_iff: "(r AND 2 ^ k = 2 ^ k) \<longleftrightarrow> bit r k" if "k < 32" for r :: role
proof
  assume "r AND 2 ^ k = 2 ^ k"
  then have "bit (r AND 2 ^ k) k = bit ((2::role) ^ k) k" by simp
  then show "bit r k" using that by (simp add: bit_and_iff bit_exp_iff)
next
  assume "bit r k"
  then show "r AND 2 ^ k = 2 ^ k"
    by (intro bit_eqI) (auto simp: bit_and_iff bit_exp_iff)
qed

lemma role_bits:
  "SERVER = 2 ^ 0" "Controller = 2 ^ 1" "AGENT = 2 ^ 2" "SCHEDULER = 2 ^ 3"
  "NETAGENT = 2 ^ 4" "CNCIAGENT = 2 ^ 5"
  by (simp_all add: SERVER_def Controller_def AGENT_def SCHEDULER_def NETAGENT_def CNCIAGENT_def)

lemma mask6: "(0x3F::role) = mask 6"
  by (simp add: mask_eq_exp_minus_1)

lemma roleOID_oid_inj:
  "a \<in> set roleOID \<Longrightarrow> b \<in> set roleOID \<Longrightarrow> snd a = snd b \<Longrightarrow> a = b"
  by (auto simp: roleOID_def RoleAgentOID_def RoleSchedulerOID_def RoleControllerOID_def
      RoleNetAgentOID_def RoleServerOID_def RoleCNCIAgentOID_def)

lemma bit_roundtrip_table:
  "bit (getRoleFromOIDs (collectOIDs r roleOID)) n \<longleftrightarrow>
     (\<exists>e\<in>set roleOID. r AND fst e = fst e \<and> bit (fst e) n)"
  unfolding bit_getRoleFromOIDs collectOIDs_filter
  by (auto dest: roleOID_oid_inj)

lemma less6: "n < 6 \<longleftrightarrow> n = 0 \<or> n = 1 \<or> n = 2 \<or> n = 3 \<or> n = 4 \<or> n = (5::nat)"
  by arith

lemma role_covered_iff:
  "r AND SERVER = SERVER \<longleftrightarrow> bit r 0"
  "r AND Controller = Controller \<longleftrightarrow> bit r 1"
  "r AND AGENT = AGENT \<longleftrightarrow> bit r 2"
  "r AND SCHEDULER = SCHEDULER \<longleftrightarrow> bit r 3"
  "r AND NETAGENT = NETAGENT \<longleftrightarrow> bit r 4"
  "r AND CNCIAGENT = CNCIAGENT \<longleftrightarrow> bit r 5"
  unfolding role_bits by (rule and_exp_eq_iff, simp)+

lemma bit_role_iff:
  "bit SERVER n \<longleftrightarrow> n = 0"
  "bit Controller n \<longleftrightarrow> n = 1"
  "bit AGENT n \<longleftrightarrow> n = 2"
  "bit SCHEDULER n \<longleftrightarrow> n = 3"
  "bit NETAGENT n \<longleftrightarrow> n = 4"
  "bit CNCIAGENT n \<longleftrightarrow> n = 5"
  unfolding role_bits by (auto simp only: bit_exp_iff possible_bit_word len_of_numeral_defs)

lemma covered_entry_iff:
  "(\<exists>e\<in>set roleOID. r AND fst e = fst e \<and> bit (fst e) n) \<longleftrightarrow> bit r n \<and> n < 6"
proof -
  have "(\<exists>e\<in>set roleOID. r AND fst e = fst e \<and> bit (fst e) n) \<longleftrightarrow>
      (bit r 2 \<and> n = 2) \<or> (bit r 3 \<and> n = 3) \<or> (bit r 1 \<and> n = 1) \<or>
      (bit r 4 \<and> n = 4) \<or> (bit r 0 \<and> n = 0) \<or> (bit r 5 \<and> n = 5)"
    by (simp only: roleOID_def list.set bex_simps fst_conv Bex_def insert_iff empty_iff
        ex_disj_distrib simp_thms role_covered_iff bit_role_iff conj_disj_distribR ex_simps)
  also have "\<dots> \<longleftrightarrow> bit r n \<and> n < 6"
    unfolding less6 by blast
  finally show ?thesis .
qed

lemma roundtrip_bit:
  "bit (getRoleFromOIDs (fst (getOIDsFromRole r))) n \<longleftrightarrow> bit r n \<and> n < 6"
  unfolding fst_getOIDsFromRole bit_roundtrip_table by (rule covered_entry_iff)

lemma roundtrip_mask: "getRoleFromOIDs (fst (getOIDsFromRole r)) = r AND 0x3F"
  unfolding mask6
  by (rule bit_eqI) (simp add: roundtrip_bit bit_and_iff bit_mask_iff)

lemma definedRoles_mask: "x \<in> definedRoles \<Longrightarrow> x AND 0x3F = x"
  by (auto simp: definedRoles_def SERVER_def Controller_def AGENT_def SCHEDULER_def
      NETAGENT_def CNCIAGENT_def)

lemma union_definedRoles_mask:
  "set rs \<subseteq> definedRoles \<Longrightarrow> foldr (OR) rs UNKNOWN AND 0x3F = foldr (OR) rs UNKNOWN"
proof (induction rs)
  case Nil
  then show ?case by (simp add: UNKNOWN_def)
next
  case (Cons x rs)
  then have "x AND 0x3F = x" and "foldr (OR) rs UNKNOWN AND 0x3F = foldr (OR) rs UNKNOWN"
    by (simp_all add: definedRoles_mask)
  then show ?case by (simp add: bit.conj_disj_distrib2)
qed

section \<open>The claims about roles and certificates\<close>

text \<open>
  C1. Every role bitmask \<open>r\<close> that is a union of defined role bits is mapped to its
  identifiers by \<open>getOIDsFromRole\<close> and back to \<open>r\<close> by \<open>getRoleFromOIDs\<close>. The slice
  returned for the empty union \<open>UNKNOWN\<close> is nil, next to an error, and it maps back to
  \<open>UNKNOWN\<close> as well; every other union is returned without an error.
\<close>

theorem role_oid_roundtrip:
  assumes "set rs \<subseteq> definedRoles" and "r = foldr (OR) rs UNKNOWN"
  shows "getRoleFromOIDs (fst (getOIDsFromRole r)) = r \<and>
         (snd (getOIDsFromRole r) = None \<longleftrightarrow> r \<noteq> UNKNOWN)"
proof -
  have m: "r AND 0x3F = r"
    using assms by (simp add: union_definedRoles_mask)
  have rt: "getRoleFromOIDs (fst (getOIDsFromRole r)) = r"
    using m by (simp add: roundtrip_mask)
  have "collectOIDs r roleOID \<noteq> [] \<longleftrightarrow> r \<noteq> UNKNOWN"
  proof
    assume "collectOIDs r roleOID \<noteq> []"
    then show "r \<noteq> UNKNOWN"
      by (auto simp: collectOIDs_filter UNKNOWN_def roleOID_def filter_empty_conv AGENT_def SCHEDULER_def
          Controller_def NETAGENT_def SERVER_def CNCIAGENT_def)
  next
    assume "r \<noteq> UNKNOWN"
    show "collectOIDs r roleOID \<noteq> []"
    proof
      assume "collectOIDs r roleOID = []"
      then have "getRoleFromOIDs (fst (getOIDsFromRole r)) = UNKNOWN"
        by (simp add: fst_getOIDsFromRole getRoleFromOIDs_def)
      with rt \<open>r \<noteq> UNKNOWN\<close> show False by simp
    qed
  qed
  with rt show ?thesis by (simp add: snd_getOIDsFromRole)
qed

theorem role_oid_roundtrip_witness:
  "set [AGENT, SERVER] \<subseteq> definedRoles \<and> (5::role) = foldr (OR) [AGENT, SERVER] UNKNOWN \<and>
   getOIDsFromRole 5 = ([RoleAgentOID, RoleServerOID], None) \<and>
   getRoleFromOIDs (fst (getOIDsFromRole 5)) = 5"
proof -
  have a: "set [AGENT, SERVER] \<subseteq> definedRoles" by (simp add: definedRoles_def)
  have b: "(5::role) = foldr (OR) [AGENT, SERVER] UNKNOWN"
    by (simp add: AGENT_def SERVER_def UNKNOWN_def)
  have c: "getOIDsFromRole 5 = ([RoleAgentOID, RoleServerOID], None)"
    by (simp add: getOIDsFromRole_def collectOIDs_def roleOID_def AGENT_def SCHEDULER_def
          Controller_def NETAGENT_def SERVER_def CNCIAGENT_def)
  from role_oid_roundtrip [OF a b] a b c show ?thesis by simp
qed

text \<open>
  C8. The table pairs AGENT, SCHEDULER, Controller, NETAGENT, SERVER and CNCIAGENT with
  the identifiers 1.3.6.1.4.1.343.8.1 to 1.3.6.1.4.1.343.8.6 in this order; no role and no
  identifier occurs twice, a single role is mapped to exactly its identifier and a single
  identifier to exactly its role.
\<close>

theorem roleOID_table:
  "roleOID =
     [(0x4, [1, 3, 6, 1, 4, 1, 343, 8, 1]),
      (0x8, [1, 3, 6, 1, 4, 1, 343, 8, 2]),
      (0x2, [1, 3, 6, 1, 4, 1, 343, 8, 3]),
      (0x10, [1, 3, 6, 1, 4, 1, 343, 8, 4]),
      (0x1, [1, 3, 6, 1, 4, 1, 343, 8, 5]),
      (0x20, [1, 3, 6, 1, 4, 1, 343, 8, 6])] \<and>
   map fst roleOID = [AGENT, SCHEDULER, Controller, NETAGENT, SERVER, CNCIAGENT] \<and>
   distinct (map fst roleOID) \<and> distinct (map snd roleOID) \<and>
   map (\<lambda>e. getOIDsFromRole (fst e)) roleOID = map (\<lambda>e. ([snd e], None)) roleOID \<and>
   map (\<lambda>e. getRoleFromOIDs [snd e]) roleOID = map fst roleOID"
  by (simp add: roleOID_def AGENT_def SCHEDULER_def Controller_def NETAGENT_def SERVER_def
      CNCIAGENT_def RoleAgentOID_def RoleSchedulerOID_def RoleControllerOID_def
      RoleNetAgentOID_def RoleServerOID_def RoleCNCIAgentOID_def getOIDsFromRole_def
      collectOIDs_def getRoleFromOIDs_def scanRoleOID_def UNKNOWN_def)

text \<open>
  C10. \<open>getRoleFromOIDs\<close> returns, for every list of identifiers, the bitwise union of
  the role bits whose identifier occurs in the list. Identifiers outside the table can be
  dropped from the list without changing the result, and a list with no identifier of the
  table yields \<open>UNKNOWN\<close>.
\<close>

theorem getRoleFromOIDs_union:
  "getRoleFromOIDs oids = roleUnion oids \<and>
   getRoleFromOIDs (filter (\<lambda>oid. oid \<in> snd ` set roleOID) oids) = getRoleFromOIDs oids \<and>
   (set oids \<inter> snd ` set roleOID = {} \<longrightarrow> getRoleFromOIDs oids = UNKNOWN)"
proof (intro conjI impI)
  show "getRoleFromOIDs oids = roleUnion oids" by (rule getRoleFromOIDs_roleUnion)
  show "getRoleFromOIDs (filter (\<lambda>oid. oid \<in> snd ` set roleOID) oids) = getRoleFromOIDs oids"
    by (rule bit_eqI) (auto simp: bit_getRoleFromOIDs)
  assume "set oids \<inter> snd ` set roleOID = {}"
  then have "\<not> bit (getRoleFromOIDs oids) n" for n
    by (auto simp: bit_getRoleFromOIDs)
  then show "getRoleFromOIDs oids = UNKNOWN"
    unfolding UNKNOWN_def by (intro bit_eqI) simp
qed

theorem getRoleFromOIDs_union_witness:
  "set [[1, 2, 840], [2, 5, 29, 37, 0]] \<inter> snd ` set roleOID = {} \<and>
   getRoleFromOIDs [[1, 2, 840], [2, 5, 29, 37, 0]] = UNKNOWN \<and>
   getRoleFromOIDs [[1, 2, 840], RoleAgentOID, RoleServerOID, RoleAgentOID] = 5"
proof -
  have a: "set [[1, 2, 840], [2, 5, 29, 37, 0]] \<inter> snd ` set roleOID = {}"
    by (simp add: roleOID_def RoleAgentOID_def RoleSchedulerOID_def RoleControllerOID_def
      RoleNetAgentOID_def RoleServerOID_def RoleCNCIAgentOID_def)
  have b: "roleUnion [[1, 2, 840], RoleAgentOID, RoleServerOID, RoleAgentOID] = 5"
    by (simp add: roleUnion_def roleOID_def AGENT_def SCHEDULER_def Controller_def NETAGENT_def SERVER_def
      CNCIAGENT_def RoleAgentOID_def RoleSchedulerOID_def RoleControllerOID_def
      RoleNetAgentOID_def RoleServerOID_def RoleCNCIAgentOID_def)
  have c: "getRoleFromOIDs [[1, 2, 840], [2, 5, 29, 37, 0]] = UNKNOWN"
    using getRoleFromOIDs_union [of "[[1, 2, 840], [2, 5, 29, 37, 0]]"] a by blast
  have "getRoleFromOIDs [[1, 2, 840], RoleAgentOID, RoleServerOID, RoleAgentOID] =
      roleUnion [[1, 2, 840], RoleAgentOID, RoleServerOID, RoleAgentOID]"
    using getRoleFromOIDs_union [of "[[1, 2, 840], RoleAgentOID, RoleServerOID, RoleAgentOID]"]
    by (rule conjunct1)
  with a b c show ?thesis by (simp only: simp_thms)
qed

text \<open>
  C2. On a TLS connection whose peer presented a certificate, \<open>verifyRole\<close> returns true
  and no error exactly when the role certified by the extended key usage of the first
  peer certificate covers the declared role, and it returns false with an error when the
  declared role is not covered.
\<close>

theorem verifyRole_covered:
  "(verifyRole (TLSConn (cert # rest)) role = Return (True, None) \<longleftrightarrow>
      role AND getRoleFromOIDs (UnknownExtKeyUsage cert) = role) \<and>
   (role AND getRoleFromOIDs (UnknownExtKeyUsage cert) \<noteq> role \<longrightarrow>
      verifyRole (TLSConn (cert # rest)) role = Return (False, Some OidError))"
  by (simp add: verifyRole_def Let_def and.commute)

theorem verifyRole_covered_witness:
  "(AGENT OR Controller) AND
      getRoleFromOIDs (UnknownExtKeyUsage \<lparr>UnknownExtKeyUsage = [RoleControllerOID]\<rparr>)
      \<noteq> AGENT OR Controller \<and>
   verifyRole (TLSConn [\<lparr>UnknownExtKeyUsage = [RoleControllerOID]\<rparr>]) (AGENT OR Controller)
      = Return (False, Some OidError) \<and>
   verifyRole (TLSConn [\<lparr>UnknownExtKeyUsage = [RoleControllerOID]\<rparr>]) Controller
      = Return (True, None)"
proof -
  have r: "getRoleFromOIDs [RoleControllerOID] = Controller"
    by (simp add: getRoleFromOIDs_def scanRoleOID_def roleOID_def UNKNOWN_def
        RoleAgentOID_def RoleSchedulerOID_def RoleControllerOID_def RoleNetAgentOID_def
        RoleServerOID_def RoleCNCIAgentOID_def)
  have a: "(AGENT OR Controller) AND
      getRoleFromOIDs (UnknownExtKeyUsage \<lparr>UnknownExtKeyUsage = [RoleControllerOID]\<rparr>)
      \<noteq> AGENT OR Controller"
    by (simp add: r) (simp add: AGENT_def Controller_def)
  have b: "Controller AND
      getRoleFromOIDs (UnknownExtKeyUsage \<lparr>UnknownExtKeyUsage = [RoleControllerOID]\<rparr>)
      = Controller"
    by (simp add: r)
  from a b
    verifyRole_covered [of "\<lparr>UnknownExtKeyUsage = [RoleControllerOID]\<rparr>" "[]" "AGENT OR Controller"]
    verifyRole_covered [of "\<lparr>UnknownExtKeyUsage = [RoleControllerOID]\<rparr>" "[]" Controller]
  show ?thesis by blast
qed

text \<open>
  C9. With the declared role \<open>UNKNOWN\<close>, \<open>verifyRole\<close> returns true and no error on every
  TLS connection whose peer presented a certificate, whatever identifiers that
  certificate carries.
\<close>

theorem verifyRole_UNKNOWN:
  "verifyRole (TLSConn (cert # rest)) UNKNOWN = Return (True, None)"
  by (simp add: verifyRole_def Let_def UNKNOWN_def)

text \<open>
  What \<open>parseCertificate\<close> returns once the file is read and a PEM block found: an error
  exactly when the block does not parse as X.509 or the first certificate yields the role
  \<open>UNKNOWN\<close>, and otherwise the role of the first certificate, which is not zero.
\<close>

lemma parseCertificate_returns:
  assumes "ReadFile h (Cert cfg) = Inr certPEM" and "pemDecode h certPEM = Some bytes"
  shows "((\<exists>r e. parseCertificate h cfg = Return (r, Some e)) \<longleftrightarrow>
            (\<exists>e. ParseCertificates h bytes = Inl e) \<or>
            (\<exists>cert rest. ParseCertificates h bytes = Inr (cert # rest) \<and>
               getRoleFromOIDs (UnknownExtKeyUsage cert) = UNKNOWN)) \<and>
         (\<forall>cert rest. ParseCertificates h bytes = Inr (cert # rest) \<and>
               getRoleFromOIDs (UnknownExtKeyUsage cert) \<noteq> UNKNOWN \<longrightarrow>
            parseCertificate h cfg = Return (getRoleFromOIDs (UnknownExtKeyUsage cert), None) \<and>
            getRoleFromOIDs (UnknownExtKeyUsage cert) \<noteq> 0)"
  using assms
  by (auto simp: parseCertificate_def Let_def UNKNOWN_def split: sum.splits list.splits)

text \<open>
  C7. A certificate that cannot be parsed does not always make \<open>parseCertificate\<close> return
  an error: when the file holds no PEM block the missing block is printed and then
  dereferenced, and when the block is empty the list of certificates is empty and its
  first element is read. Both calls panic; neither returns an error or a role.
\<close>

theorem parseCertificate_unparsed_panics:
  "parseCertificate noPemHost exampleConfig = Panic \<and>
   parseCertificate emptyPemHost exampleConfig = Panic"
  by (simp add: parseCertificate_def noPemHost_def emptyPemHost_def exampleConfig_def)

section \<open>Properties of the system calls and of the stages of \<open>newUUID\<close>\<close>

lemma allocFd_SomeD: "allocFd s = Some m \<Longrightarrow> m < nofile s \<and> fdtab s (int m) = None"
  unfolding allocFd_def by (auto simp: find_Some_iff)

lemma allocFd_Some: "n < nofile s \<Longrightarrow> fdtab s (int n) = None \<Longrightarrow> \<exists>m. allocFd s = Some m"
  unfolding allocFd_def
  by (cases "find (\<lambda>n. fdtab s (int n) = None) [0..<nofile s]") (auto simp: find_None_iff)

text \<open>MkdirAll touches only the directories.\<close>

lemma MkdirAll_frame:
  "fdtab (snd (MkdirAll p s)) = fdtab s" "flocks (snd (MkdirAll p s)) = flocks s"
  "files (snd (MkdirAll p s)) = files s" "fault (snd (MkdirAll p s)) = fault s"
  "nofile (snd (MkdirAll p s)) = nofile s" "rng (snd (MkdirAll p s)) = rng s"
  by (simp_all add: MkdirAll_def split: option.splits)

lemma MkdirAll_dirs:
  "dirs s \<subseteq> dirs (snd (MkdirAll p s))"
  "fault s (MkdirAllCall p) = None \<Longrightarrow> p \<in> dirs (snd (MkdirAll p s))"
  by (auto simp: MkdirAll_def split: option.splits)

lemma MkdirAll_result:
  "fst (MkdirAll p s) = map_option Errno (fault s (MkdirAllCall p))"
  by (simp add: MkdirAll_def split: option.splits)

lemma uuidGenerate_frame:
  "fdtab (snd (uuidGenerate lib s)) = fdtab s" "flocks (snd (uuidGenerate lib s)) = flocks s"
  "files (snd (uuidGenerate lib s)) = files s" "fault (snd (uuidGenerate lib s)) = fault s"
  "nofile (snd (uuidGenerate lib s)) = nofile s" "rng (snd (uuidGenerate lib s)) = Suc (rng s)"
  "fst (uuidGenerate lib s) = Generate lib (rng s)"
  by (simp_all add: uuidGenerate_def)

lemma sysOpen_frame:
  "flocks (snd (sysOpen p c w s)) = flocks s" "fault (snd (sysOpen p c w s)) = fault s"
  "nofile (snd (sysOpen p c w s)) = nofile s" "rng (snd (sysOpen p c w s)) = rng s"
  "dirs (snd (sysOpen p c w s)) = dirs s"
  by (simp_all add: sysOpen_def split: option.splits)

lemma sysOpen_Inl:
  "fst (sysOpen p c w s) = Inl e \<Longrightarrow> snd (sysOpen p c w s) = s"
  by (auto simp: sysOpen_def split: option.splits if_splits)

lemma sysOpen_Inr:
  assumes "fst (sysOpen p c w s) = Inr fd"
  shows "fdtab s fd = None" and "0 \<le> fd"
    and "fdtab (snd (sysOpen p c w s)) = (fdtab s)(fd \<mapsto> \<lparr>opath = p, offset = 0, writable = w\<rparr>)"
    and "fileContent (snd (sysOpen p c w s)) q = fileContent s q"
  using assms
  by (auto simp: sysOpen_def fileContent_def dest: allocFd_SomeD split: option.splits if_splits)

lemma sysOpen_fileContent: "fileContent (snd (sysOpen p c w s)) q = fileContent s q"
  by (auto simp: sysOpen_def fileContent_def split: option.splits if_splits)

lemma sysOpen_ok:
  assumes "fault s (OpenCall p) = None" and "files s p \<noteq> None \<or> dirname p \<in> dirs s"
    and "n < nofile s" and "fdtab s (int n) = None"
  shows "\<exists>m. fst (sysOpen p True w s) = Inr (int m) \<and> m < nofile s \<and> fdtab s (int m) = None"
proof -
  from allocFd_Some [OF assms(3,4)] obtain m where m: "allocFd s = Some m" by blast
  with assms(1,2) have "fst (sysOpen p True w s) = Inr (int m)"
    by (auto simp: sysOpen_def)
  with allocFd_SomeD [OF m] show ?thesis by blast
qed

lemma sysClose_frame:
  "fdtab (snd (sysClose fd s)) = (fdtab s)(fd := None)"
  "flocks (snd (sysClose fd s)) =
     (case fdtab s fd of None \<Rightarrow> flocks s | Some f \<Rightarrow> dropLock fd (opath f) s)"
  "files (snd (sysClose fd s)) = files s" "fault (snd (sysClose fd s)) = fault s"
  "nofile (snd (sysClose fd s)) = nofile s" "rng (snd (sysClose fd s)) = rng s"
  by (auto simp: sysClose_def split: option.splits)


lemma sysFlock_frame:
  "fdtab (snd (sysFlock fd how s)) = fdtab s" "files (snd (sysFlock fd how s)) = files s"
  "fault (snd (sysFlock fd how s)) = fault s" "nofile (snd (sysFlock fd how s)) = nofile s"
  "rng (snd (sysFlock fd how s)) = rng s"
  by (simp_all add: sysFlock_def split: option.splits flock_op.splits)

lemma sysFlock_fileContent: "fileContent (snd (sysFlock fd how s)) q = fileContent s q"
  by (simp add: fileContent_def sysFlock_frame)

lemma sysFlock_failed:
  "fst (sysFlock fd how s) = Some e \<Longrightarrow> snd (sysFlock fd how s) = s"
  by (cases how) (auto simp: sysFlock_def split: option.splits if_splits)

lemma sysFlock_locked:
  "fst (sysFlock fd LOCK_EX_NB s) = None \<Longrightarrow>
     \<exists>f. fdtab s fd = Some f \<and> flocks (snd (sysFlock fd LOCK_EX_NB s)) = (flocks s)(opath f \<mapsto> Self fd)"
  by (auto simp: sysFlock_def split: option.splits if_splits)

lemma sysRead_frame:
  "flocks (snd (sysRead fd c s)) = flocks s" "files (snd (sysRead fd c s)) = files s"
  "fault (snd (sysRead fd c s)) = fault s" "nofile (snd (sysRead fd c s)) = nofile s"
  "rng (snd (sysRead fd c s)) = rng s"
  by (simp_all add: sysRead_def Let_def split: option.splits)

lemma sysRead_fdtab:
  "k \<noteq> fd \<Longrightarrow> fdtab (snd (sysRead fd c s)) k = fdtab s k"
  "(fdtab (snd (sysRead fd c s)))(fd := None) = (fdtab s)(fd := None)"
  by (auto simp: sysRead_def Let_def split: option.splits)

lemma sysWrite_frame:
  "flocks (snd (sysWrite fd b s)) = flocks s"
  "fault (snd (sysWrite fd b s)) = fault s" "nofile (snd (sysWrite fd b s)) = nofile s"
  "rng (snd (sysWrite fd b s)) = rng s"
  by (simp_all add: sysWrite_def Let_def split: option.splits)

lemma sysWrite_fdtab:
  "k \<noteq> fd \<Longrightarrow> fdtab (snd (sysWrite fd b s)) k = fdtab s k"
  "(fdtab (snd (sysWrite fd b s)))(fd := None) = (fdtab s)(fd := None)"
  by (auto simp: sysWrite_def Let_def split: option.splits)

lemma dropLock_cong: "flocks s1 = flocks s \<Longrightarrow> dropLock fd p s1 = dropLock fd p s"
  by (simp add: dropLock_def)

lemma dropLock_SomeD: "dropLock fd p s q = Some h \<Longrightarrow> flocks s q = Some h"
  by (simp add: dropLock_def split: if_splits)

lemma dropLock_own: "dropLock fd p (s\<lparr>flocks := (flocks s)(p \<mapsto> Self fd)\<rparr>) = (flocks s)(p := None)"
  by (simp add: dropLock_def)

text \<open>The locked part on its error paths.\<close>

lemma newUUID_locked_err_uuid:
  "snd (fst (newUUID_locked lib fd lfd nU s)) \<noteq> None \<Longrightarrow>
     fst (fst (newUUID_locked lib fd lfd nU s)) = nU"
  by (auto simp: newUUID_locked_def case_prod_beta Let_def split: sum.splits option.splits if_splits)

lemma newUUID_locked_err_fdtab:
  "snd (fst (newUUID_locked lib fd lfd nU s)) \<noteq> None \<Longrightarrow> fd \<noteq> lfd \<Longrightarrow>
     (fdtab (snd (newUUID_locked lib fd lfd nU s)))(fd := None) = (fdtab s)(lfd := None, fd := None)"
  by (auto simp: newUUID_locked_def case_prod_beta Let_def sysClose_frame sysRead_fdtab
      sysWrite_fdtab uuidGenerate_frame fun_upd_twist [of lfd fd]
      split: sum.splits option.splits if_splits)


lemma newUUID_locked_err_flocks:
  "snd (fst (newUUID_locked lib fd lfd nU s)) \<noteq> None \<Longrightarrow> fd \<noteq> lfd \<Longrightarrow>
     flocks (snd (newUUID_locked lib fd lfd nU s)) =
       (case fdtab s lfd of None \<Rightarrow> flocks s | Some L \<Rightarrow> dropLock lfd (opath L) s)"
  by (auto simp: newUUID_locked_def case_prod_beta Let_def sysClose_frame sysRead_fdtab
      sysWrite_fdtab sysRead_frame sysWrite_frame uuidGenerate_frame dropLock_def
      split: sum.splits option.splits if_splits)

lemma newUUID_locked_fd_open:
  "fd \<noteq> lfd \<Longrightarrow> map_option opath (fdtab (snd (newUUID_locked lib fd lfd nU s)) fd)
     = map_option opath (fdtab s fd)"
  by (auto simp: newUUID_locked_def case_prod_beta Let_def sysClose_frame sysRead_def
      sysWrite_def uuidGenerate_def
      split: sum.splits option.splits if_splits)

lemma deferClose_simps:
  "fst (deferClose fd r) = fst r" "snd (deferClose fd r) = snd (sysClose fd (snd r))"
  by (simp_all add: deferClose_def)

text \<open>The three outcomes of the part under the deferred close.\<close>

lemma newUUID_opened_cases:
  obtains (open_failed) err where
      "fst (sysOpen lockFile True False s) = Inl err"
      "newUUID_opened lib lockFile fd nU rU s = ((nU, Some err), s)"
  | (lock_failed) lfd where
      "fst (sysOpen lockFile True False s) = Inr lfd"
      "fst (sysFlock lfd LOCK_EX_NB (snd (sysOpen lockFile True False s))) \<noteq> None"
      "newUUID_opened lib lockFile fd nU rU s =
         ((rU, None), snd (sysClose lfd (snd (sysOpen lockFile True False s))))"
  | (locked) lfd where
      "fst (sysOpen lockFile True False s) = Inr lfd"
      "fst (sysFlock lfd LOCK_EX_NB (snd (sysOpen lockFile True False s))) = None"
      "newUUID_opened lib lockFile fd nU rU s =
         newUUID_locked lib fd lfd nU (snd (sysFlock lfd LOCK_EX_NB (snd (sysOpen lockFile True False s))))"
proof (cases "fst (sysOpen lockFile True False s)")
  case (Inl err)
  then have "newUUID_opened lib lockFile fd nU rU s = ((nU, Some err), s)"
    using sysOpen_Inl [OF Inl] by (simp add: newUUID_opened_def case_prod_beta)
  with Inl show ?thesis by (rule open_failed)
next
  case (Inr lfd)
  show ?thesis
  proof (cases "fst (sysFlock lfd LOCK_EX_NB (snd (sysOpen lockFile True False s)))")
    case None
    with Inr have "newUUID_opened lib lockFile fd nU rU s =
         newUUID_locked lib fd lfd nU (snd (sysFlock lfd LOCK_EX_NB (snd (sysOpen lockFile True False s))))"
      by (simp add: newUUID_opened_def case_prod_beta)
    with Inr None show ?thesis by (rule locked)
  next
    case (Some e)
    with Inr have "newUUID_opened lib lockFile fd nU rU s =
         ((rU, None), snd (sysClose lfd (snd (sysOpen lockFile True False s))))"
      using sysFlock_failed [OF Some] by (simp add: newUUID_opened_def case_prod_beta)
    moreover from Some have "fst (sysFlock lfd LOCK_EX_NB (snd (sysOpen lockFile True False s))) \<noteq> None"
      by simp
    ultimately show ?thesis using Inr by (intro lock_failed)
  qed
qed

lemma prepared_frame:
  "fdtab (prepared lib prefix s) = fdtab s" "flocks (prepared lib prefix s) = flocks s"
  "files (prepared lib prefix s) = files s" "fault (prepared lib prefix s) = fault s"
  "nofile (prepared lib prefix s) = nofile s" "rng (prepared lib prefix s) = Suc (rng s)"
  by (simp_all add: prepared_def MkdirAll_frame uuidGenerate_frame)

lemma prepared_fileContent: "fileContent (prepared lib prefix s) q = fileContent s q"
  by (simp add: fileContent_def prepared_frame)

lemma newUUID_cases:
  obtains (mkdir_failed) e where
      "fault s (MkdirAllCall uuidLockPrefix) = Some e"
      "newUUID lib prefix role s = ((nullLocked lib, Some (Errno e)), prepared lib prefix s)"
  | (open_failed) err where
      "fault s (MkdirAllCall uuidLockPrefix) = None"
      "fst (sysOpen (uuidFile prefix role) True True (prepared lib prefix s)) = Inl err"
      "newUUID lib prefix role s = ((nullLocked lib, Some err), prepared lib prefix s)"
  | (opened) fd where
      "fault s (MkdirAllCall uuidLockPrefix) = None"
      "fst (sysOpen (uuidFile prefix role) True True (prepared lib prefix s)) = Inr fd"
      "newUUID lib prefix role s =
         deferClose fd
           (newUUID_opened lib (uuidLockFile prefix role) fd (nullLocked lib) (randomLocked lib s)
              (snd (sysOpen (uuidFile prefix role) True True (prepared lib prefix s))))"
proof -
  let ?s2 = "snd (MkdirAll (uuidPrefix @ ''/'' @ prefix) (snd (uuidGenerate lib s)))"
  have m: "fst (MkdirAll uuidLockPrefix ?s2) = map_option Errno (fault s (MkdirAllCall uuidLockPrefix))"
    by (simp add: MkdirAll_result MkdirAll_frame uuidGenerate_frame)
  show ?thesis
  proof (cases "fault s (MkdirAllCall uuidLockPrefix)")
    case (Some e)
    with m have "newUUID lib prefix role s = ((nullLocked lib, Some (Errno e)), prepared lib prefix s)"
      by (simp add: newUUID_def case_prod_beta Let_def prepared_def nullLocked_def)
    with Some show ?thesis by (rule mkdir_failed)
  next
    case None
    show ?thesis
    proof (cases "fst (sysOpen (uuidFile prefix role) True True (prepared lib prefix s))")
      case (Inl err)
      with m None sysOpen_Inl [OF Inl]
      have "newUUID lib prefix role s = ((nullLocked lib, Some err), prepared lib prefix s)"
        by (simp add: newUUID_def case_prod_beta Let_def prepared_def nullLocked_def)
      with None Inl show ?thesis by (rule open_failed)
    next
      case (Inr fd)
      with m None
      have "newUUID lib prefix role s =
         deferClose fd
           (newUUID_opened lib (uuidLockFile prefix role) fd (nullLocked lib) (randomLocked lib s)
              (snd (sysOpen (uuidFile prefix role) True True (prepared lib prefix s))))"
        by (simp add: newUUID_def case_prod_beta Let_def prepared_def nullLocked_def
            randomLocked_def uuidGenerate_frame)
      with None Inr show ?thesis by (rule opened)
    qed
  qed
qed

lemma fun_upd_fresh: "m k = None \<Longrightarrow> m(k := None) = m"
  by (rule ext) simp

text \<open>The state in which the locked part starts.\<close>

lemma locked_start:
  assumes o: "fst (sysOpen lockFile True False s) = Inr lfd"
    and l: "fst (sysFlock lfd LOCK_EX_NB (snd (sysOpen lockFile True False s))) = None"
  shows "fdtab (snd (sysFlock lfd LOCK_EX_NB (snd (sysOpen lockFile True False s))))
           = (fdtab s)(lfd \<mapsto> \<lparr>opath = lockFile, offset = 0, writable = False\<rparr>)"
    and "flocks (snd (sysFlock lfd LOCK_EX_NB (snd (sysOpen lockFile True False s))))
           = (flocks s)(lockFile \<mapsto> Self lfd)"
    and "fdtab s lfd = None"
proof -
  let ?s1 = "snd (sysOpen lockFile True False s)"
  have t: "fdtab ?s1 = (fdtab s)(lfd \<mapsto> \<lparr>opath = lockFile, offset = 0, writable = False\<rparr>)"
    by (rule sysOpen_Inr(3) [OF o])
  then show "fdtab (snd (sysFlock lfd LOCK_EX_NB ?s1))
           = (fdtab s)(lfd \<mapsto> \<lparr>opath = lockFile, offset = 0, writable = False\<rparr>)"
    by (simp add: sysFlock_frame)
  from sysFlock_locked [OF l] t
  show "flocks (snd (sysFlock lfd LOCK_EX_NB ?s1)) = (flocks s)(lockFile \<mapsto> Self lfd)"
    by (auto simp: sysOpen_frame)
  show "fdtab s lfd = None" by (rule sysOpen_Inr(1) [OF o])
qed

lemma newUUID_opened_err:
  assumes err: "snd (fst (newUUID_opened lib lockFile fd nU rU s)) \<noteq> None"
    and fd: "fdtab s fd \<noteq> None"
  shows "fst (fst (newUUID_opened lib lockFile fd nU rU s)) = nU"
    and "(fdtab (snd (newUUID_opened lib lockFile fd nU rU s)))(fd := None) = (fdtab s)(fd := None)"
    and "flocks (snd (newUUID_opened lib lockFile fd nU rU s)) q = Some h \<Longrightarrow> flocks s q = Some h"
proof -
  let ?O = "newUUID_opened lib lockFile fd nU rU s"
  have "fst (fst ?O) = nU \<and> (fdtab (snd ?O))(fd := None) = (fdtab s)(fd := None) \<and>
      (flocks (snd ?O) q = Some h \<longrightarrow> flocks s q = Some h)"
  proof (cases rule: newUUID_opened_cases [of lockFile s lib fd nU rU])
    case (open_failed e)
    then show ?thesis by simp
  next
    case (lock_failed lfd)
    with err show ?thesis by simp
  next
    case (locked lfd)
    let ?s2 = "snd (sysFlock lfd LOCK_EX_NB (snd (sysOpen lockFile True False s)))"
    note st = locked_start [OF locked(1,2)]
    from st(3) fd have ne: "fd \<noteq> lfd" by auto
    from err locked(3) have e2: "snd (fst (newUUID_locked lib fd lfd nU ?s2)) \<noteq> None" by simp
    have a: "fst (fst ?O) = nU"
      using newUUID_locked_err_uuid [OF e2] locked(3) by simp
    have "(fdtab (snd ?O))(fd := None) = (fdtab ?s2)(lfd := None, fd := None)"
      using newUUID_locked_err_fdtab [OF e2 ne] locked(3) by simp
    also have "\<dots> = (fdtab s)(fd := None)"
      using st(3) by (simp add: st(1) fun_upd_fresh)
    finally have b: "(fdtab (snd ?O))(fd := None) = (fdtab s)(fd := None)" .
    have "flocks (snd ?O) = (flocks s)(lockFile := None)"
      using newUUID_locked_err_flocks [OF e2 ne] locked(3)
      by (simp add: st(1) st(2) dropLock_def)
    then have c: "flocks (snd ?O) q = Some h \<longrightarrow> flocks s q = Some h"
      by (simp split: if_splits)
    from a b c show ?thesis by blast
  qed
  then show "fst (fst ?O) = nU"
    and "(fdtab (snd ?O))(fd := None) = (fdtab s)(fd := None)"
    and "flocks (snd ?O) q = Some h \<Longrightarrow> flocks s q = Some h"
    by blast+
qed

lemma sysClose_flocks_SomeD:
  "flocks (snd (sysClose fd s)) q = Some h \<Longrightarrow> flocks s q = Some h"
  by (auto simp: sysClose_frame dest: dropLock_SomeD split: option.splits)

lemma dirname_append: "CHR ''/'' \<notin> set name \<Longrightarrow> dirname (d @ CHR ''/'' # name) = d"
proof -
  assume n: "CHR ''/'' \<notin> set name"
  have "dropWhile (\<lambda>c. c \<noteq> CHR ''/'') (rev name @ CHR ''/'' # rev d) = CHR ''/'' # rev d"
    using n by (subst dropWhile_append2) auto
  then show ?thesis by (simp add: dirname_def)
qed

lemma hexDigit_no_slash: "d < 16 \<Longrightarrow> hexDigit d \<noteq> CHR ''/''"
proof -
  assume "d < 16"
  then have "hexDigit d \<in> set ''0123456789abcdef''"
    unfolding hexDigit_def by (intro nth_mem) simp
  then show ?thesis by auto
qed

lemma hexString_no_slash: "CHR ''/'' \<notin> set (hexString n)"
proof (induction n rule: hexString.induct)
  case (1 n)
  show ?case
  proof (cases "n < 16")
    case True
    then show ?thesis using hexDigit_no_slash [of n] by (simp add: hexString.simps [of n])
  next
    case False
    then show ?thesis
      using 1 hexDigit_no_slash [of "n mod 16"] by (simp add: hexString.simps [of n])
  qed
qed

lemma dirname_uuidFile: "dirname (uuidFile prefix role) = uuidPrefix @ ''/'' @ prefix"
proof -
  have e: "uuidFile prefix role = (uuidPrefix @ ''/'' @ prefix) @ CHR ''/'' # (''0x'' @ hexString (unat role))"
    by (simp add: uuidFile_def)
  have "CHR ''/'' \<notin> set (''0x'' @ hexString (unat role))"
    by (simp add: hexString_no_slash)
  then show ?thesis unfolding e by (rule dirname_append)
qed

lemma dirname_uuidLockFile:
  "CHR ''/'' \<notin> set prefix \<Longrightarrow> dirname (uuidLockFile prefix role) = uuidLockPrefix"
proof -
  assume p: "CHR ''/'' \<notin> set prefix"
  have e: "uuidLockFile prefix role =
      uuidLockPrefix @ CHR ''/'' # (prefix @ ''-role-0x'' @ hexString (unat role))"
    by (simp add: uuidLockFile_def)
  have "CHR ''/'' \<notin> set (prefix @ ''-role-0x'' @ hexString (unat role))"
    using p by (simp add: hexString_no_slash)
  then show ?thesis unfolding e by (rule dirname_append)
qed

lemma prepared_dirs:
  assumes "fault s (MkdirAllCall (uuidPrefix @ ''/'' @ prefix)) = None"
    and "fault s (MkdirAllCall uuidLockPrefix) = None"
  shows "uuidPrefix @ ''/'' @ prefix \<in> dirs (prepared lib prefix s)"
    and "uuidLockPrefix \<in> dirs (prepared lib prefix s)"
proof -
  let ?s1 = "snd (uuidGenerate lib s)"
  let ?s2 = "snd (MkdirAll (uuidPrefix @ ''/'' @ prefix) ?s1)"
  have "uuidPrefix @ ''/'' @ prefix \<in> dirs ?s2"
    using assms(1) by (intro MkdirAll_dirs(2)) (simp add: uuidGenerate_frame)
  then show "uuidPrefix @ ''/'' @ prefix \<in> dirs (prepared lib prefix s)"
    unfolding prepared_def using MkdirAll_dirs(1) [of ?s2 uuidLockPrefix] by blast
  show "uuidLockPrefix \<in> dirs (prepared lib prefix s)"
    unfolding prepared_def using assms(2)
    by (intro MkdirAll_dirs(2)) (simp add: MkdirAll_frame uuidGenerate_frame)
qed

lemma sysClose_keeps_lock:
  "flocks s q = Some h \<Longrightarrow> h \<noteq> Self fd \<Longrightarrow> flocks (snd (sysClose fd s)) q = Some h"
  by (auto simp: sysClose_frame dropLock_def split: option.splits)

text \<open>
  With \<open>reachesLock\<close>, both files are opened on two fresh descriptors and \<open>newUUID\<close> is
  what follows the second \<open>Open\<close>.
\<close>

lemma newUUID_reaches_lock:
  assumes "reachesLock prefix role a b s"
  obtains fd lfd S where "fd \<noteq> lfd" and "0 \<le> lfd" and "fdtab s fd = None" and "fdtab s lfd = None"
    and "fdtab S = (fdtab s)(fd \<mapsto> \<lparr>opath = uuidFile prefix role, offset = 0, writable = True\<rparr>,
                          lfd \<mapsto> \<lparr>opath = uuidLockFile prefix role, offset = 0, writable = False\<rparr>)"
    and "flocks S = flocks s" and "fault S = fault s" and "rng S = Suc (rng s)"
    and "\<And>q. fileContent S q = fileContent s q"
    and "newUUID lib prefix role s =
           deferClose fd
             (case sysFlock lfd LOCK_EX_NB S of
                (Some _, s6) \<Rightarrow> ((randomLocked lib s, None), snd (sysClose lfd s6))
              | (None, s6) \<Rightarrow> newUUID_locked lib fd lfd (nullLocked lib) s6)"
proof -
  from assms have slash: "CHR ''/'' \<notin> set prefix"
    and m1: "fault s (MkdirAllCall (uuidPrefix @ ''/'' @ prefix)) = None"
    and m2: "fault s (MkdirAllCall uuidLockPrefix) = None"
    and o1: "fault s (OpenCall (uuidFile prefix role)) = None"
    and o2: "fault s (OpenCall (uuidLockFile prefix role)) = None"
    and ab: "a \<noteq> b" "a < nofile s" "b < nofile s" "fdtab s (int a) = None" "fdtab s (int b) = None"
    by (simp_all add: reachesLock_def)
  let ?P = "prepared lib prefix s"
  note d = prepared_dirs [OF m1 m2, of lib]
  have "\<exists>m. fst (sysOpen (uuidFile prefix role) True True ?P) = Inr (int m) \<and> m < nofile ?P \<and>
      fdtab ?P (int m) = None"
    using o1 d(1) ab by (intro sysOpen_ok [where n = a]) (simp_all add: prepared_frame dirname_uuidFile)
  then obtain m where m: "fst (sysOpen (uuidFile prefix role) True True ?P) = Inr (int m)"
    and mf: "fdtab s (int m) = None"
    by (auto simp: prepared_frame)
  let ?S4 = "snd (sysOpen (uuidFile prefix role) True True ?P)"
  note i1 = sysOpen_Inr [OF m]
  have t4: "fdtab ?S4 = (fdtab s)(int m \<mapsto> \<lparr>opath = uuidFile prefix role, offset = 0, writable = True\<rparr>)"
    using i1(3) by (simp add: prepared_frame)
  obtain c where c: "c < nofile s" "fdtab ?S4 (int c) = None"
  proof (cases "m = a")
    case True
    with ab show ?thesis by (intro that [of b]) (simp_all add: t4)
  next
    case False
    with ab show ?thesis by (intro that [of a]) (simp_all add: t4)
  qed
  have "\<exists>k. fst (sysOpen (uuidLockFile prefix role) True False ?S4) = Inr (int k) \<and> k < nofile ?S4 \<and>
      fdtab ?S4 (int k) = None"
    using o2 d(2) c slash
    by (intro sysOpen_ok [where n = c])
      (simp_all add: sysOpen_frame prepared_frame dirname_uuidLockFile)
  then obtain k where k: "fst (sysOpen (uuidLockFile prefix role) True False ?S4) = Inr (int k)"
    and kf: "fdtab ?S4 (int k) = None"
    by auto
  let ?S5 = "snd (sysOpen (uuidLockFile prefix role) True False ?S4)"
  note i2 = sysOpen_Inr [OF k]
  from kf have km: "int m \<noteq> int k" and kf': "fdtab s (int k) = None"
    by (auto simp: t4 split: if_splits)
  have t5: "fdtab ?S5 = (fdtab s)(int m \<mapsto> \<lparr>opath = uuidFile prefix role, offset = 0, writable = True\<rparr>,
      int k \<mapsto> \<lparr>opath = uuidLockFile prefix role, offset = 0, writable = False\<rparr>)"
    using i2(3) by (simp add: t4)
  have fr: "flocks ?S5 = flocks s" "fault ?S5 = fault s" "rng ?S5 = Suc (rng s)"
    by (simp_all add: sysOpen_frame prepared_frame)
  have fc: "fileContent ?S5 q = fileContent s q" for q
    by (simp add: sysOpen_fileContent prepared_fileContent)
  have "newUUID lib prefix role s =
      deferClose (int m)
        (newUUID_opened lib (uuidLockFile prefix role) (int m) (nullLocked lib) (randomLocked lib s) ?S4)"
  proof (cases rule: newUUID_cases [of s lib prefix role])
    case (mkdir_failed e)
    with m2 show ?thesis by simp
  next
    case (open_failed err)
    with m show ?thesis by simp
  next
    case (opened fd)
    with m show ?thesis by simp
  qed
  also have "newUUID_opened lib (uuidLockFile prefix role) (int m) (nullLocked lib) (randomLocked lib s) ?S4
      = (case sysFlock (int k) LOCK_EX_NB ?S5 of
                (Some _, s6) \<Rightarrow> ((randomLocked lib s, None), snd (sysClose (int k) s6))
              | (None, s6) \<Rightarrow> newUUID_locked lib (int m) (int k) (nullLocked lib) s6)"
    using k by (simp add: newUUID_opened_def case_prod_beta)
  finally show ?thesis
    using km mf kf' t5 fr fc by (intro that [of "int m" "int k" ?S5]) simp_all
qed

lemma sysOpen_fault:
  "fault s (OpenCall p) = Some e \<Longrightarrow> sysOpen p c w s = (Inl (Errno e), s)"
  by (simp add: sysOpen_def)

lemma sysFlock_busy:
  assumes "fdtab s fd = Some f" and "flocks s (opath f) = Some Other"
  shows "fst (sysFlock fd LOCK_EX_NB s) \<noteq> None"
  using assms by (simp add: sysFlock_def split: option.splits)








lemma newUUID_lock_open_fails:
  assumes "fault s (MkdirAllCall (uuidPrefix @ ''/'' @ prefix)) = None"
    and "fault s (MkdirAllCall uuidLockPrefix) = None"
    and "fault s (OpenCall (uuidFile prefix role)) = None"
    and "a < nofile s" and "fdtab s (int a) = None"
    and "fault s (OpenCall (uuidLockFile prefix role)) = Some e"
  shows "fst (newUUID lib prefix role s) = (nullLocked lib, Some (Errno e))"
proof (cases rule: newUUID_cases [of s lib prefix role])
  case (mkdir_failed e')
  with assms(2) show ?thesis by simp
next
  case (open_failed err)
  have "\<exists>m. fst (sysOpen (uuidFile prefix role) True True (prepared lib prefix s)) = Inr (int m) \<and>
      m < nofile (prepared lib prefix s) \<and> fdtab (prepared lib prefix s) (int m) = None"
    using assms(3,4,5) prepared_dirs(1) [OF assms(1,2), of lib]
    by (intro sysOpen_ok [where n = a]) (simp_all add: prepared_frame dirname_uuidFile)
  with open_failed(2) show ?thesis by simp
next
  case (opened fd)
  let ?S4 = "snd (sysOpen (uuidFile prefix role) True True (prepared lib prefix s))"
  have "fault ?S4 (OpenCall (uuidLockFile prefix role)) = Some e"
    using assms(6) by (simp add: sysOpen_frame prepared_frame)
  then have "sysOpen (uuidLockFile prefix role) True False ?S4 = (Inl (Errno e), ?S4)"
    by (rule sysOpen_fault)
  then show ?thesis
    by (simp add: opened(3) deferClose_def newUUID_opened_def)
qed

lemma example_reachesLock:
  "reachesLock ''scheduler'' SCHEDULER 0 1 (exampleOS fs ls (\<lambda>c. None))"
  by (simp add: reachesLock_def exampleOS_def)


lemma example_fields:
  "flocks (exampleOS fs ls flt) = ls" "fault (exampleOS fs ls flt) = flt"
  "rng (exampleOS fs ls flt) = 0" "fdtab (exampleOS fs ls flt) = Map.empty"
  "nofile (exampleOS fs ls flt) = 1024"
  by (simp_all add: exampleOS_def)





section \<open>The claims about the identity store\<close>




text \<open>
  C4. When \<open>newUUID\<close> reaches the lock and the lock of (prefix, role) is held by another
  process, it returns without error the UUID generated at its start, with \<open>lockFd = -1\<close>;
  every descriptor it opened is closed again and the lock stays with the other process.
\<close>

theorem newUUID_lock_busy:
  assumes "reachesLock prefix role a b s"
    and "flocks s (uuidLockFile prefix role) = Some Other"
  shows "fst (newUUID lib prefix role s) = (\<lparr>lockFd = -1, uuid = Generate lib (rng s)\<rparr>, None) \<and>
         fdtab (snd (newUUID lib prefix role s)) = fdtab s \<and>
         flocks (snd (newUUID lib prefix role s)) (uuidLockFile prefix role) = Some Other"
proof (rule newUUID_reaches_lock [where lib = lib, OF assms(1)])
  fix fd lfd S
  assume ne: "fd \<noteq> lfd" and pos: "0 \<le> lfd"
    and f1: "fdtab s fd = None" and f2: "fdtab s lfd = None"
    and t: "fdtab S = (fdtab s)(fd \<mapsto> \<lparr>opath = uuidFile prefix role, offset = 0, writable = True\<rparr>,
                          lfd \<mapsto> \<lparr>opath = uuidLockFile prefix role, offset = 0, writable = False\<rparr>)"
    and fr: "flocks S = flocks s" "fault S = fault s" "rng S = Suc (rng s)"
    and fc: "\<And>q. fileContent S q = fileContent s q"
    and R: "newUUID lib prefix role s =
           deferClose fd
             (case sysFlock lfd LOCK_EX_NB S of
                (Some _, s6) \<Rightarrow> ((randomLocked lib s, None), snd (sysClose lfd s6))
              | (None, s6) \<Rightarrow> newUUID_locked lib fd lfd (nullLocked lib) s6)"
  have "fst (sysFlock lfd LOCK_EX_NB S) \<noteq> None"
    by (rule sysFlock_busy [where f = "\<lparr>opath = uuidLockFile prefix role, offset = 0, writable = False\<rparr>"])
      (simp_all add: t fr assms(2))
  then obtain e where e: "fst (sysFlock lfd LOCK_EX_NB S) = Some e" by auto
  from sysFlock_failed [OF e] e have "sysFlock lfd LOCK_EX_NB S = (Some e, S)"
    by (simp add: prod_eq_iff)
  with R have R': "newUUID lib prefix role s =
      ((randomLocked lib s, None), snd (sysClose fd (snd (sysClose lfd S))))"
    by (simp add: deferClose_def)
  have a: "fst (newUUID lib prefix role s) = (\<lparr>lockFd = -1, uuid = Generate lib (rng s)\<rparr>, None)"
    by (simp add: R' randomLocked_def)
  have "fdtab (snd (newUUID lib prefix role s)) = (fdtab S)(lfd := None, fd := None)"
    by (simp add: R' sysClose_frame)
  also have "\<dots> = fdtab s"
    using f1 f2 ne by (auto simp: t fun_eq_iff)
  finally have b: "fdtab (snd (newUUID lib prefix role s)) = fdtab s" .
  have "flocks (snd (sysClose lfd S)) (uuidLockFile prefix role) = Some Other"
    by (rule sysClose_keeps_lock) (simp_all add: fr assms(2))
  then have "flocks (snd (sysClose fd (snd (sysClose lfd S)))) (uuidLockFile prefix role) = Some Other"
    by (rule sysClose_keeps_lock) simp
  then have c: "flocks (snd (newUUID lib prefix role s)) (uuidLockFile prefix role) = Some Other"
    by (simp add: R')
  from a b c show ?thesis by (intro conjI)
qed

theorem newUUID_lock_busy_witness:
  "reachesLock ''scheduler'' SCHEDULER 0 1
     (exampleOS Map.empty [uuidLockFile ''scheduler'' SCHEDULER \<mapsto> Other] (\<lambda>c. None)) \<and>
   fst (newUUID exampleLib ''scheduler'' SCHEDULER
     (exampleOS Map.empty [uuidLockFile ''scheduler'' SCHEDULER \<mapsto> Other] (\<lambda>c. None)))
     = (\<lparr>lockFd = -1, uuid = Generate exampleLib 0\<rparr>, None) \<and>
   fdtab (snd (newUUID exampleLib ''scheduler'' SCHEDULER
     (exampleOS Map.empty [uuidLockFile ''scheduler'' SCHEDULER \<mapsto> Other] (\<lambda>c. None))))
     = Map.empty"
proof -
  let ?W = "exampleOS Map.empty [uuidLockFile ''scheduler'' SCHEDULER \<mapsto> Other] (\<lambda>c. None)"
  have r: "reachesLock ''scheduler'' SCHEDULER 0 1 ?W" by (rule example_reachesLock)
  have l: "flocks ?W (uuidLockFile ''scheduler'' SCHEDULER) = Some Other"
    by (simp add: example_fields)
  note T = newUUID_lock_busy [OF r l, of exampleLib]
  from T have "fst (newUUID exampleLib ''scheduler'' SCHEDULER ?W)
      = (\<lparr>lockFd = -1, uuid = Generate exampleLib (rng ?W)\<rparr>, None)"
    by (rule conjunct1)
  then have a: "fst (newUUID exampleLib ''scheduler'' SCHEDULER ?W)
      = (\<lparr>lockFd = -1, uuid = Generate exampleLib 0\<rparr>, None)"
    by (simp only: example_fields)
  from T have "fdtab (snd (newUUID exampleLib ''scheduler'' SCHEDULER ?W)) = fdtab ?W"
    by (elim conjE)
  then have b: "fdtab (snd (newUUID exampleLib ''scheduler'' SCHEDULER ?W)) = Map.empty"
    by (simp only: example_fields)
  from r a b show ?thesis by (intro conjI)
qed

text \<open>
  C5. Whenever \<open>newUUID\<close> returns an error, the returned value has \<open>lockFd = -1\<close>, the
  descriptor table is what it was before the call (the UUID file and the lock file are
  closed again), and this process holds no lock it did not hold before.
\<close>

theorem newUUID_error_closes:
  assumes "newUUID lib prefix role s = ((u, Some e), s')"
  shows "lockFd u = -1 \<and> fdtab s' = fdtab s \<and>
         (\<forall>p k. flocks s' p = Some (Self k) \<longrightarrow> flocks s p = Some (Self k))"
proof (cases rule: newUUID_cases [of s lib prefix role])
  case (mkdir_failed e')
  with assms show ?thesis by (auto simp: nullLocked_def prepared_frame)
next
  case (open_failed err)
  with assms show ?thesis by (auto simp: nullLocked_def prepared_frame)
next
  case (opened fd)
  let ?s4 = "snd (sysOpen (uuidFile prefix role) True True (prepared lib prefix s))"
  let ?O = "newUUID_opened lib (uuidLockFile prefix role) fd (nullLocked lib) (randomLocked lib s) ?s4"
  note o = sysOpen_Inr [OF opened(2)]
  from o(3) have fd: "fdtab ?s4 fd \<noteq> None" by simp
  from assms opened(3) have r: "fst ?O = (u, Some e)" and s': "s' = snd (sysClose fd (snd ?O))"
    by (simp_all add: deferClose_def)
  from r have err: "snd (fst ?O) \<noteq> None" by simp
  note E = newUUID_opened_err [OF err fd]
  from E(1) r have "u = nullLocked lib" by simp
  then have a: "lockFd u = -1" by (simp add: nullLocked_def)
  have "fdtab s' = (fdtab ?s4)(fd := None)"
    unfolding s' by (simp add: sysClose_frame E(2))
  also have "\<dots> = fdtab s"
    using o(1) by (simp add: o(3) prepared_frame fun_upd_fresh)
  finally have b: "fdtab s' = fdtab s" .
  have c: "flocks s' p = Some h \<longrightarrow> flocks s p = Some h" for p h
  proof
    assume "flocks s' p = Some h"
    then have "flocks (snd ?O) p = Some h"
      unfolding s' by (rule sysClose_flocks_SomeD)
    then have "flocks ?s4 p = Some h" by (rule E(3))
    then show "flocks s p = Some h" by (simp add: sysOpen_frame prepared_frame)
  qed
  from a b c show ?thesis by blast
qed

theorem newUUID_error_closes_witness:
  "fst (newUUID exampleLib ''scheduler'' SCHEDULER
     (exampleOS Map.empty Map.empty
        (\<lambda>c. if c = OpenCall (uuidLockFile ''scheduler'' SCHEDULER) then Some 13 else None)))
     = (nullLocked exampleLib, Some (Errno 13)) \<and>
   lockFd (nullLocked exampleLib) = -1 \<and>
   fdtab (snd (newUUID exampleLib ''scheduler'' SCHEDULER
     (exampleOS Map.empty Map.empty
        (\<lambda>c. if c = OpenCall (uuidLockFile ''scheduler'' SCHEDULER) then Some 13 else None))))
     = Map.empty"
proof -
  let ?W = "exampleOS Map.empty Map.empty
        (\<lambda>c. if c = OpenCall (uuidLockFile ''scheduler'' SCHEDULER) then Some 13 else None)"
  have ne: "uuidFile ''scheduler'' SCHEDULER \<noteq> uuidLockFile ''scheduler'' SCHEDULER"
    by (simp add: uuidFile_def uuidLockFile_def uuidPrefix_def uuidLockPrefix_def)
  have F: "fst (newUUID exampleLib ''scheduler'' SCHEDULER ?W) = (nullLocked exampleLib, Some (Errno 13))"
    using ne by (intro newUUID_lock_open_fails [where a = 0]) (simp_all add: example_fields)
  then have R: "newUUID exampleLib ''scheduler'' SCHEDULER ?W
      = ((nullLocked exampleLib, Some (Errno 13)), snd (newUUID exampleLib ''scheduler'' SCHEDULER ?W))"
    by (simp add: prod_eq_iff)
  note T = newUUID_error_closes [OF R]
  from T have a: "lockFd (nullLocked exampleLib) = -1" by (rule conjunct1)
  from T have "fdtab (snd (newUUID exampleLib ''scheduler'' SCHEDULER ?W)) = fdtab ?W"
    by (elim conjE)
  then have b: "fdtab (snd (newUUID exampleLib ''scheduler'' SCHEDULER ?W)) = Map.empty"
    by (simp only: example_fields)
  from F a b show ?thesis by (intro conjI)
qed

text \<open>
  C6. \<open>freeUUID\<close> on a value with \<open>lockFd = -1\<close> changes nothing and returns no error.
  On a value whose descriptor is open, with no outside failure of \<open>flock\<close>, it returns no
  error and drops the lock held through that descriptor; a lock that is not held through
  that descriptor is left alone.
\<close>

theorem freeUUID_releases:
  "(lockFd u = -1 \<longrightarrow> freeUUID u s = (None, s)) \<and>
   (lockFd u \<noteq> -1 \<and> fdtab s (lockFd u) = Some f \<and> fault s (FlockCall (opath f)) = None \<and>
      flocks s (opath f) = Some (Self (lockFd u)) \<longrightarrow>
    freeUUID u s = (None, s\<lparr>flocks := (flocks s)(opath f := None)\<rparr>)) \<and>
   (lockFd u \<noteq> -1 \<and> fdtab s (lockFd u) = Some f \<and> fault s (FlockCall (opath f)) = None \<and>
      flocks s (opath f) \<noteq> Some (Self (lockFd u)) \<longrightarrow>
    freeUUID u s = (None, s))"
  by (simp add: freeUUID_def sysFlock_def dropLock_def)

theorem freeUUID_releases_witness:
  "freeUUID \<lparr>lockFd = 3, uuid = exampleUUID\<rparr> heldOS
     = (None, heldOS\<lparr>flocks := (flocks heldOS)(''/tmp/lock/ciao/scheduler-role-0x8'' := None)\<rparr>) \<and>
   freeUUID \<lparr>lockFd = -1, uuid = exampleUUID\<rparr> heldOS = (None, heldOS)"
proof -
  have a: "lockFd \<lparr>lockFd = 3, uuid = exampleUUID\<rparr> \<noteq> -1 \<and>
      fdtab heldOS (lockFd \<lparr>lockFd = 3, uuid = exampleUUID\<rparr>)
        = Some \<lparr>opath = ''/tmp/lock/ciao/scheduler-role-0x8'', offset = 0, writable = False\<rparr> \<and>
      fault heldOS (FlockCall (opath \<lparr>opath = ''/tmp/lock/ciao/scheduler-role-0x8'', offset = 0, writable = False\<rparr>)) = None \<and>
      flocks heldOS (opath \<lparr>opath = ''/tmp/lock/ciao/scheduler-role-0x8'', offset = 0, writable = False\<rparr>)
        = Some (Self (lockFd \<lparr>lockFd = 3, uuid = exampleUUID\<rparr>))"
    by (simp add: heldOS_def)
  have b: "lockFd \<lparr>lockFd = -1, uuid = exampleUUID\<rparr> = -1" by simp
  have "freeUUID \<lparr>lockFd = 3, uuid = exampleUUID\<rparr> heldOS
     = (None, heldOS\<lparr>flocks := (flocks heldOS)(opath \<lparr>opath = ''/tmp/lock/ciao/scheduler-role-0x8'', offset = 0, writable = False\<rparr> := None)\<rparr>)"
    by (rule freeUUID_releases [THEN conjunct2, THEN conjunct1, THEN mp, OF a])
  moreover have "freeUUID \<lparr>lockFd = -1, uuid = exampleUUID\<rparr> heldOS = (None, heldOS)"
    by (rule freeUUID_releases [THEN conjunct1, THEN mp, OF b])
  ultimately show ?thesis by simp
qed

end
